theory Spec2Isabelle
  imports Main "HOL-Library.Sublist"
begin

section \<open>The agent contract of tf\_agents/agents/tf\_agent.py\<close>

text \<open>
  A shallow embedding of the class \<open>TFAgent\<close>: its constructor, its read-only
  properties and the validating front end \<open>train\<close> of the abstract hook
  \<open>_train\<close>. Exceptions are values of a sum type, the instance is a record that
  every operation takes and returns, and the subclass hook is a parameter.
\<close>

subsection \<open>Nested structures, tensors and specs\<close>

text \<open>
  A nest is what \<open>tf.nest\<close> traverses: a leaf, or an ordered collection of nests
  (a tuple, a list, a named tuple such as \<open>Trajectory\<close>, a dict in key order).
\<close>

datatype 'a nest = Leaf 'a | Node "'a nest list"

text \<open>\<open>tf.nest.flatten\<close>: the leaves, left to right.\<close>

fun flatten :: "'a nest \<Rightarrow> 'a list" where
  "flatten (Leaf x) = [x]"
| "flatten (Node ns) = concat (map flatten ns)"

text \<open>\<open>tf.nest.map_structure\<close> with a function that does not raise.\<close>

fun map_structure :: "('a \<Rightarrow> 'b) \<Rightarrow> 'a nest \<Rightarrow> 'b nest" where
  "map_structure f (Leaf x) = Leaf (f x)"
| "map_structure f (Node ns) = Node (map (map_structure f) ns)"

text \<open>
  Of a tensor and of a spec the contract reads the attribute \<open>shape\<close> only. A shape
  is the list of its dimension sizes (eager tensors: every size is known).
\<close>

datatype tensor = Tensor (shape: "nat list")

datatype tensor_spec = TensorSpec (spec_shape: "nat list")

subsection \<open>Exceptions\<close>

text \<open>
  \<open>ValueError\<close> and \<open>TypeError\<close> carry their message. \<open>IndexError\<close> is what
  indexing a shape out of range raises, \<open>AttributeError\<close> what reading an attribute
  that was never assigned raises. \<open>ConfigurationError\<close> is the error of the override
  check. \<open>HookRaised\<close> is an exception of the subclass hook, which \<open>train\<close> lets
  through.
\<close>

datatype error =
    ValueError string
  | TypeError string
  | IndexError
  | AttributeError string
  | ConfigurationError string
  | HookRaised string

subsection \<open>Formatting\<close>

text \<open>Python's \<open>'%d' % n\<close> and \<open>str(n)\<close> of an integer: decimal digits.\<close>

definition digit_char :: "nat \<Rightarrow> char" where
  "digit_char d = ''0123456789'' ! (d mod 10)"

fun str_nat :: "nat \<Rightarrow> string" where
  "str_nat n = (if n < 10 then [digit_char n] else str_nat (n div 10) @ [digit_char (n mod 10)])"

declare str_nat.simps [simp del]

definition str_int :: "int \<Rightarrow> string" where
  "str_int i = (if i < 0 then ''-'' @ str_nat (nat (- i)) else str_nat (nat i))"

text \<open>
  How a structure of shapes is printed by \<open>%s\<close> is the runtime's business and not this
  file's: \<open>train\<close> takes the printer as its first argument. \<open>str_structure\<close> is
  one printer, used in the examples: a shape as \<open>(4, 3, 8)\<close>, a collection in
  brackets.
\<close>

fun join :: "string \<Rightarrow> string list \<Rightarrow> string" where
  "join sep [] = []"
| "join sep [x] = x"
| "join sep (x # y # ys) = x @ sep @ join sep (y # ys)"

definition str_shape :: "nat list \<Rightarrow> string" where
  "str_shape s = ''('' @ join '', '' (map str_nat s) @ '')''"

fun str_structure :: "nat list nest \<Rightarrow> string" where
  "str_structure (Leaf s) = str_shape s"
| "str_structure (Node ns) = ''['' @ join '', '' (map str_structure ns) @ '']''"

subsection \<open>Policies, loss records and the instance\<close>

text \<open>
  Of a policy the contract reads \<open>trajectory_spec\<close> only; \<open>policy_name\<close> tells
  one policy from another.
\<close>

record tf_policy =
  policy_name :: string
  trajectory_spec :: "tensor_spec nest"

text \<open>\<open>LossInfo = collections.namedtuple("LossInfo", ("loss", "extra"))\<close>\<close>

record ('l, 'x) LossInfo =
  loss :: 'l
  extra :: 'x

text \<open>
  The instance: the seven attributes that \<open>__init__\<close> assigns, \<open>None\<close> while an
  attribute is not assigned, and the attributes of the concrete subclass
  (\<open>subclass_attrs\<close>: its variables, optimizer state, counters).
\<close>

record 's TFAgent =
  attr_time_step_spec :: "tensor_spec nest option"
  attr_action_spec :: "tensor_spec nest option"
  attr_policy :: "tf_policy option"
  attr_collect_policy :: "tf_policy option"
  attr_train_sequence_length :: "int option option"
  attr_debug_summaries :: "bool option"
  attr_summarize_grads_and_vars :: "bool option"
  subclass_attrs :: 's

text \<open>Reading an attribute: \<open>AttributeError\<close> when it was never assigned.\<close>

definition getattr :: "string \<Rightarrow> 'a option \<Rightarrow> error + 'a" where
  "getattr name v = (case v of None \<Rightarrow> Inl (AttributeError name) | Some x \<Rightarrow> Inr x)"

subsection \<open>Construction\<close>

text \<open>The names that the body of class \<open>TFAgent\<close> defines, in source order.\<close>

definition TFAgent_members :: "string list" where
  "TFAgent_members =
    [''__init__'', ''initialize'', ''train'', ''time_step_spec'', ''action_spec'', ''policy'',
     ''collect_policy'', ''collect_data_spec'', ''train_sequence_length'', ''debug_summaries'',
     ''summarize_grads_and_vars'', ''_initialize'', ''_train'']"

text \<open>
  Modelled from the spec: \<open>common.assert_members_are_not_overridden\<close> is not among the
  sources. The spec: "the concrete subclass must not override any of the contract's
  non-extension methods (methods not named with the internal-hook naming convention)",
  and a violation "fails construction with a configuration error". The internal-hook
  naming convention is the leading underscore of \<open>_initialize\<close> and \<open>_train\<close>.
  \<open>subclass_members\<close> are the names that the body of the concrete subclass defines.
\<close>

definition is_hook_name :: "string \<Rightarrow> bool" where
  "is_hook_name m = (case m of [] \<Rightarrow> False | c # _ \<Rightarrow> c = CHR ''_'')"

definition overridden_members :: "string list \<Rightarrow> string list \<Rightarrow> string list" where
  "overridden_members base_members subclass_members =
     filter (\<lambda>m. \<not> is_hook_name m \<and> m \<in> set subclass_members) base_members"

definition assert_members_are_not_overridden :: "string list \<Rightarrow> string list \<Rightarrow> error + unit" where
  "assert_members_are_not_overridden base_members subclass_members =
     (case overridden_members base_members subclass_members of
        [] \<Rightarrow> Inr ()
      | m # ms \<Rightarrow> Inl (ConfigurationError (join '', '' (m # ms))))"

text \<open>
  \<open>TFAgent.__init__\<close>: the override check first, then the seven assignments. The
  function returns the instance in both cases: after a raise it is the instance as the
  raise left it.
\<close>

definition init ::
  "string list \<Rightarrow> tensor_spec nest \<Rightarrow> tensor_spec nest \<Rightarrow> tf_policy \<Rightarrow> tf_policy \<Rightarrow> int option \<Rightarrow>
   bool \<Rightarrow> bool \<Rightarrow> 's TFAgent \<Rightarrow> (error + unit) \<times> 's TFAgent" where
  "init subclass_members time_step_spec action_spec policy collect_policy train_sequence_length
        debug_summaries summarize_grads_and_vars self =
     (case assert_members_are_not_overridden TFAgent_members subclass_members of
        Inl e \<Rightarrow> (Inl e, self)
      | Inr _ \<Rightarrow>
          (Inr (),
           self\<lparr>attr_time_step_spec := Some time_step_spec,
                attr_action_spec := Some action_spec,
                attr_policy := Some policy,
                attr_collect_policy := Some collect_policy,
                attr_train_sequence_length := Some train_sequence_length,
                attr_debug_summaries := Some debug_summaries,
                attr_summarize_grads_and_vars := Some summarize_grads_and_vars\<rparr>))"

subsection \<open>The read-only properties\<close>

definition time_step_spec :: "'s TFAgent \<Rightarrow> error + tensor_spec nest" where
  "time_step_spec self = getattr ''_time_step_spec'' (attr_time_step_spec self)"

definition action_spec :: "'s TFAgent \<Rightarrow> error + tensor_spec nest" where
  "action_spec self = getattr ''_action_spec'' (attr_action_spec self)"

definition policy :: "'s TFAgent \<Rightarrow> error + tf_policy" where
  "policy self = getattr ''_policy'' (attr_policy self)"

definition collect_policy :: "'s TFAgent \<Rightarrow> error + tf_policy" where
  "collect_policy self = getattr ''_collect_policy'' (attr_collect_policy self)"

definition collect_data_spec :: "'s TFAgent \<Rightarrow> error + tensor_spec nest" where
  "collect_data_spec self =
     (case collect_policy self of Inl e \<Rightarrow> Inl e | Inr p \<Rightarrow> Inr (trajectory_spec p))"

definition train_sequence_length :: "'s TFAgent \<Rightarrow> error + int option" where
  "train_sequence_length self =
     getattr ''_train_sequence_length'' (attr_train_sequence_length self)"

definition debug_summaries :: "'s TFAgent \<Rightarrow> error + bool" where
  "debug_summaries self = getattr ''_debug_summaries'' (attr_debug_summaries self)"

definition summarize_grads_and_vars :: "'s TFAgent \<Rightarrow> error + bool" where
  "summarize_grads_and_vars self =
     getattr ''_summarize_grads_and_vars'' (attr_summarize_grads_and_vars self)"

subsection \<open>The structure check\<close>

text \<open>
  Modelled from the spec: \<open>nest_utils.is_batched_nested_tensors\<close> is not among the
  sources. The spec: "every tensor in \<open>experience\<close> must nest-match
  \<open>collect_data_spec\<close> and carry exactly two leading outer dimensions (batch, time)
  beyond the per-field feature shape". The tensors and the specs have the same nesting,
  and the shape of each tensor is \<open>num_outer_dims\<close> sizes followed by the shape of
  its spec.
\<close>

definition is_batched_tensor :: "nat \<Rightarrow> tensor \<Rightarrow> tensor_spec \<Rightarrow> bool" where
  "is_batched_tensor num_outer_dims t s =
     (length (shape t) = num_outer_dims + length (spec_shape s) \<and>
      drop num_outer_dims (shape t) = spec_shape s)"

function is_batched_nested_tensors :: "tensor nest \<Rightarrow> tensor_spec nest \<Rightarrow> nat \<Rightarrow> bool" where
  "is_batched_nested_tensors (Leaf t) (Leaf s) num_outer_dims = is_batched_tensor num_outer_dims t s"
| "is_batched_nested_tensors (Node ts) (Node ss) num_outer_dims =
     (length ts = length ss \<and>
      list_all (\<lambda>(t, s). is_batched_nested_tensors t s num_outer_dims) (zip ts ss))"
| "is_batched_nested_tensors (Leaf t) (Node ss) num_outer_dims = False"
| "is_batched_nested_tensors (Node ts) (Leaf s) num_outer_dims = False"
  by pat_completeness auto
termination
proof (relation "measure (\<lambda>(t, s, n). size t)")
  show "wf (measure (\<lambda>(t, s, n). size t))" by simp
next
  fix ts :: "tensor nest list" and ss :: "tensor_spec nest list" and num_outer_dims :: nat
    and x :: "tensor nest \<times> tensor_spec nest" and xa y
  assume "x \<in> set (zip ts ss)" and "(xa, y) = x"
  then have "xa \<in> set ts" by (auto dest: set_zip_leftD)
  then have "size xa \<le> size_list size ts" by (rule size_list_estimation') simp
  then show "((xa, y, num_outer_dims), (Node ts, Node ss, num_outer_dims))
      \<in> measure (\<lambda>(t, s, n). size t)"
    by simp
qed

subsection \<open>Training\<close>

text \<open>
  The argument \<open>experience\<close> is any Python object. \<open>isinstance\<close> tells a
  \<open>Trajectory\<close>, a nest of tensors, from every other object, of which the contract
  reads \<open>type(experience)\<close> only, for the message.
\<close>

datatype experience_obj = Trajectory "tensor nest" | NotTrajectory string

text \<open>
  What a call of the hook \<open>_train\<close> does: it returns a \<open>LossInfo\<close>, or it
  returns another object (of which the contract reads its \<open>str\<close> only, for the
  message), or it raises.
\<close>

datatype ('l, 'x) hook_result =
    ReturnsLossInfo "('l, 'x) LossInfo"
  | ReturnsOther string
  | Raises string

text \<open>
  The hook is the method of the concrete subclass: \<open>self._train(...)\<close> hands it the
  instance itself with the three arguments. It may read and assign every attribute of
  the instance, the seven of \<open>TFAgent\<close> included: nothing in the class prevents
  it. The model hands the hook the instance and takes back what the call did and the
  instance as the hook left it.
\<close>

type_synonym ('w, 'c, 's, 'l, 'x) train_hook =
  "'s TFAgent \<Rightarrow> tensor nest \<Rightarrow> 'w option \<Rightarrow> 'c option \<Rightarrow> ('l, 'x) hook_result \<times> 's TFAgent"

text \<open>\<open>t.shape[i]\<close>: indexing a shape, \<open>IndexError\<close> out of range.\<close>

definition shape_dim :: "nat list \<Rightarrow> nat \<Rightarrow> error + nat" where
  "shape_dim s i = (if i < length s then Inr (s ! i) else Inl IndexError)"

text \<open>The character \<open>'\<close> of the messages.\<close>

definition apostrophe :: string where
  "apostrophe = [CHR 0x27]"

text \<open>
  The four messages of \<open>train\<close>, each the format string of the source with its
  arguments filled in.
\<close>

definition not_trajectory_message :: "string \<Rightarrow> string" where
  "not_trajectory_message ty = ''experience must be type Trajectory, saw type: '' @ ty"

definition outer_dims_message :: "string \<Rightarrow> string \<Rightarrow> string" where
  "outer_dims_message debug_str_1 debug_str_2 =
     ''At least one of the tensors in `experience` does not '' @
     ''have two outer dimensions. Tensors should be shaped as '' @
     ''B x T x [F ...]; batch size, time step, and frame.\<newline>'' @
     ''Full shapes of experience tensors:\<newline>'' @ debug_str_1 @
     ''.\<newline>Full expected shapes (minus outer dimensions):\<newline>'' @ debug_str_2 @ ''.''"

definition time_axis_message :: "nat \<Rightarrow> int \<Rightarrow> string \<Rightarrow> string" where
  "time_axis_message found required debug_str =
     ''One of the tensors in `experience` has a time axis dim value '' @
     apostrophe @ str_nat found @ apostrophe @
     '', but we require dim value '' @
     apostrophe @ str_int required @ apostrophe @
     ''.  Full shape structure of experience:\<newline>'' @ debug_str"

definition not_loss_info_message :: "string \<Rightarrow> string" where
  "not_loss_info_message v = ''loss_info is not a subclass of LossInfo: '' @ v"

text \<open>
  The local function \<open>check_shape\<close> of \<open>train\<close>, with the variables it closes
  over as arguments: the printer, the experience and the required length.
\<close>

definition check_shape ::
  "(nat list nest \<Rightarrow> string) \<Rightarrow> tensor nest \<Rightarrow> int \<Rightarrow> tensor \<Rightarrow> error + unit" where
  "check_shape fmt experience required t =
     (case shape_dim (shape t) 1 of
        Inl e \<Rightarrow> Inl e
      | Inr d \<Rightarrow>
          if int d \<noteq> required then
            Inl (ValueError
              (time_axis_message d required (fmt (map_structure shape experience))))
          else Inr ())"

text \<open>
  \<open>tf.nest.map_structure\<close> with a function that is called for its exceptions: the
  leaves are visited in the order of \<open>flatten\<close> and the first raise ends the visit.
  \<open>train\<close> drops the structure of results.
\<close>

fun first_raise :: "('a \<Rightarrow> error + unit) \<Rightarrow> 'a list \<Rightarrow> error + unit" where
  "first_raise f [] = Inr ()"
| "first_raise f (x # xs) = (case f x of Inl e \<Rightarrow> Inl e | Inr _ \<Rightarrow> first_raise f xs)"

text \<open>
  \<open>TFAgent.train\<close>. The result is what the call returns or raises, the list of the
  argument triples with which it called the hook, and the instance after the call.
\<close>

definition train ::
  "(nat list nest \<Rightarrow> string) \<Rightarrow> ('w, 'c, 's, 'l, 'x) train_hook \<Rightarrow> 's TFAgent \<Rightarrow>
   experience_obj \<Rightarrow> 'w option \<Rightarrow> 'c option \<Rightarrow>
   (error + ('l, 'x) LossInfo) \<times> (tensor nest \<times> 'w option \<times> 'c option) list \<times> 's TFAgent" where
  "train fmt hook self experience weights train_step_counter =
     (case experience of
        NotTrajectory ty \<Rightarrow>
          (Inl (ValueError (not_trajectory_message ty)), [], self)
      | Trajectory ex \<Rightarrow>
          (case collect_data_spec self of
             Inl e \<Rightarrow> (Inl e, [], self)
           | Inr spec \<Rightarrow>
               if \<not> is_batched_nested_tensors ex spec 2 then
                 (Inl (ValueError
                    (outer_dims_message (fmt (map_structure shape ex))
                       (fmt (map_structure spec_shape spec)))),
                  [], self)
               else
                 (case train_sequence_length self of
                    Inl e \<Rightarrow> (Inl e, [], self)
                  | Inr tsl \<Rightarrow>
                      (case (case tsl of
                               None \<Rightarrow> Inr ()
                             | Some required \<Rightarrow>
                                 first_raise (check_shape fmt ex required) (flatten ex)) of
                         Inl e \<Rightarrow> (Inl e, [], self)
                       | Inr _ \<Rightarrow>
                           (case hook self ex weights train_step_counter of
                              (r, self_after) \<Rightarrow>
                                ((case r of
                                    Raises x \<Rightarrow> Inl (HookRaised x)
                                  | ReturnsOther v \<Rightarrow>
                                      Inl (TypeError (not_loss_info_message v))
                                  | ReturnsLossInfo loss_info \<Rightarrow> Inr loss_info),
                                 [(ex, weights, train_step_counter)],
                                 self_after))))))"

text \<open>The parts of the result of \<open>train\<close>.\<close>

definition train_result ::
  "(error + ('l, 'x) LossInfo) \<times> (tensor nest \<times> 'w option \<times> 'c option) list \<times> 's TFAgent \<Rightarrow>
   error + ('l, 'x) LossInfo" where
  "train_result r = fst r"

definition hook_calls ::
  "(error + ('l, 'x) LossInfo) \<times> (tensor nest \<times> 'w option \<times> 'c option) list \<times> 's TFAgent \<Rightarrow>
   (tensor nest \<times> 'w option \<times> 'c option) list" where
  "hook_calls r = fst (snd r)"

definition agent_after ::
  "(error + ('l, 'x) LossInfo) \<times> (tensor nest \<times> 'w option \<times> 'c option) list \<times> 's TFAgent \<Rightarrow>
   's TFAgent" where
  "agent_after r = snd (snd r)"

text \<open>A caller that trains again and again, whatever each call returns or raises.\<close>

fun train_all ::
  "(nat list nest \<Rightarrow> string) \<Rightarrow> ('w, 'c, 's, 'l, 'x) train_hook \<Rightarrow> 's TFAgent \<Rightarrow>
   (experience_obj \<times> 'w option \<times> 'c option) list \<Rightarrow> 's TFAgent" where
  "train_all fmt hook self [] = self"
| "train_all fmt hook self ((experience, weights, train_step_counter) # calls) =
     train_all fmt hook
       (agent_after (train fmt hook self experience weights train_step_counter)) calls"

subsection \<open>Hooks that leave the attributes of the base class alone\<close>

text \<open>
  The seven attributes that \<open>__init__\<close> assigns, as one value; a hook that assigns
  none of them, whatever the instance and the arguments it is called with; and a hook
  that does not assign the collect policy.
\<close>

definition base_attrs ::
  "'s TFAgent \<Rightarrow>
   tensor_spec nest option \<times> tensor_spec nest option \<times> tf_policy option \<times> tf_policy option \<times>
   int option option \<times> bool option \<times> bool option" where
  "base_attrs self =
     (attr_time_step_spec self, attr_action_spec self, attr_policy self,
      attr_collect_policy self, attr_train_sequence_length self,
      attr_debug_summaries self, attr_summarize_grads_and_vars self)"

definition hook_keeps_base_attrs :: "('w, 'c, 's, 'l, 'x) train_hook \<Rightarrow> bool" where
  "hook_keeps_base_attrs hook =
     (\<forall>self ex weights counter.
        base_attrs (snd (hook self ex weights counter)) = base_attrs self)"

definition hook_keeps_collect_policy :: "('w, 'c, 's, 'l, 'x) train_hook \<Rightarrow> bool" where
  "hook_keeps_collect_policy hook =
     (\<forall>self ex weights counter.
        attr_collect_policy (snd (hook self ex weights counter)) = attr_collect_policy self)"

subsection \<open>An agent, a hook and batches to run the model on\<close>

text \<open>
  The scenario of the spec: features of size 8, \<open>train_sequence_length = 2\<close>, a
  batch of 4. The subclass counts its training steps; its hook returns a loss of 125
  (hundredths) and an empty \<open>extra\<close>.
\<close>

definition example_spec :: "tensor_spec nest" where
  "example_spec = Node [Leaf (TensorSpec [8]), Leaf (TensorSpec [])]"

definition example_policy :: tf_policy where
  "example_policy = \<lparr>policy_name = ''greedy'', trajectory_spec = example_spec\<rparr>"

definition example_collect_policy :: tf_policy where
  "example_collect_policy = \<lparr>policy_name = ''epsilon_greedy'', trajectory_spec = example_spec\<rparr>"

definition unassigned :: "nat TFAgent" where
  "unassigned =
     \<lparr>attr_time_step_spec = None, attr_action_spec = None, attr_policy = None,
      attr_collect_policy = None, attr_train_sequence_length = None,
      attr_debug_summaries = None, attr_summarize_grads_and_vars = None,
      subclass_attrs = 0\<rparr>"

definition example_subclass :: "string list" where
  "example_subclass = [''__init__'', ''_initialize'', ''_train'']"

definition example_agent :: "int option \<Rightarrow> nat TFAgent" where
  "example_agent tsl =
     snd (init example_subclass (Leaf (TensorSpec [8])) (Leaf (TensorSpec []))
            example_policy example_collect_policy tsl False False unassigned)"

definition example_hook :: "(unit, unit, nat, nat, unit) train_hook" where
  "example_hook self ex weights train_step_counter =
     (ReturnsLossInfo \<lparr>loss = 125, extra = ()\<rparr>,
      self\<lparr>subclass_attrs := Suc (subclass_attrs self)\<rparr>)"

definition raw_loss_hook :: "(unit, unit, nat, nat, unit) train_hook" where
  "raw_loss_hook self ex weights train_step_counter =
     (ReturnsOther ''1.25'', self\<lparr>subclass_attrs := Suc (subclass_attrs self)\<rparr>)"

definition batch :: "nat \<Rightarrow> tensor nest" where
  "batch time = Node [Leaf (Tensor [4, time, 8]), Leaf (Tensor [4, time])]"

text \<open>
  Further inputs. An agent whose collect policy has specs of the shapes
  \<open>[4, 3, 5, 8]\<close> and \<open>[4, 3, 5]\<close>, with \<open>train_sequence_length = 2\<close>, and
  tensors of exactly these shapes: tensors with no outer dimension at all, the case in
  which the structure check answers no. A batch whose second tensor has no time axis, a
  subclass that overrides \<open>train\<close>, a third policy, a caller's three calls in a
  row, and two hooks that assign an attribute of the base class.
\<close>

definition unbatched_spec :: "tensor_spec nest" where
  "unbatched_spec = Node [Leaf (TensorSpec [4, 3, 5, 8]), Leaf (TensorSpec [4, 3, 5])]"

definition unbatched_policy :: tf_policy where
  "unbatched_policy = \<lparr>policy_name = ''epsilon_greedy'', trajectory_spec = unbatched_spec\<rparr>"

definition unbatched_agent :: "nat TFAgent" where
  "unbatched_agent =
     snd (init example_subclass (Leaf (TensorSpec [8])) (Leaf (TensorSpec []))
            example_policy unbatched_policy (Some 2) False False unassigned)"

definition unbatched_tensors :: "tensor nest" where
  "unbatched_tensors = Node [Leaf (Tensor [4, 3, 5, 8]), Leaf (Tensor [4, 3, 5])]"

definition one_dim_batch :: "tensor nest" where
  "one_dim_batch = Node [Leaf (Tensor [4, 2, 8]), Leaf (Tensor [4])]"

definition overriding_subclass :: "string list" where
  "overriding_subclass = [''__init__'', ''train'', ''_train'']"

definition other_policy :: tf_policy where
  "other_policy = \<lparr>policy_name = ''random'', trajectory_spec = Leaf (TensorSpec [3])\<rparr>"

definition example_calls :: "(experience_obj \<times> unit option \<times> unit option) list" where
  "example_calls =
     [(Trajectory (batch 2), None, None), (NotTrajectory ''<class 'tuple'>'', None, None),
      (Trajectory (batch 3), None, None)]"

definition length_assigning_hook :: "(unit, unit, nat, nat, unit) train_hook" where
  "length_assigning_hook self ex weights train_step_counter =
     (ReturnsLossInfo \<lparr>loss = 125, extra = ()\<rparr>,
      self\<lparr>attr_train_sequence_length := Some None\<rparr>)"

definition policy_assigning_hook :: "(unit, unit, nat, nat, unit) train_hook" where
  "policy_assigning_hook self ex weights train_step_counter =
     (ReturnsLossInfo \<lparr>loss = 125, extra = ()\<rparr>,
      self\<lparr>attr_collect_policy := Some other_policy\<rparr>)"

section \<open>Properties\<close>

subsection \<open>Nests, the structure check and the visit of the leaves\<close>

lemma flatten_map_structure: "flatten (map_structure f n) = map f (flatten n)"
  by (induction n) (auto simp: map_concat intro: arg_cong[where f=concat])

lemma batched_rank:
  "is_batched_nested_tensors ex spec n \<Longrightarrow> t \<in> set (flatten ex) \<Longrightarrow> n \<le> length (shape t)"
proof (induction ex spec n rule: is_batched_nested_tensors.induct)
  case (1 t' s n)
  then show ?case by (simp add: is_batched_tensor_def)
next
  case (2 ts ss n)
  from "2.prems"(2) obtain sub where sub: "sub \<in> set ts" "t \<in> set (flatten sub)" by auto
  then obtain i where i: "i < length ts" "ts ! i = sub" by (auto simp: in_set_conv_nth)
  from "2.prems"(1) have len: "length ts = length ss"
    and all: "list_all (\<lambda>(t, s). is_batched_nested_tensors t s n) (zip ts ss)" by auto
  from i len have mem: "(sub, ss ! i) \<in> set (zip ts ss)"
    by (auto simp: in_set_zip)
  with all have "is_batched_nested_tensors sub (ss ! i) n" by (auto simp: list_all_iff)
  with "2.IH"[OF mem refl] sub(2) show ?case by simp
qed simp_all

lemma first_raise_all_ok:
  "(\<And>x. x \<in> set xs \<Longrightarrow> f x = Inr ()) \<Longrightarrow> first_raise f xs = Inr ()"
  by (induction xs) auto

lemma first_raise_find:
  "first_raise f xs = (case find (\<lambda>x. f x \<noteq> Inr ()) xs of None \<Rightarrow> Inr () | Some x \<Rightarrow> f x)"
  by (induction xs) (auto split: sum.splits)

text \<open>
  \<open>train\<close> itself assigns nothing: after a call the instance is the instance before
  it when the hook was not called, and the instance as the hook left it otherwise.
\<close>

lemma train_instance_after:
  "agent_after (train fmt hook self experience weights counter) =
     (case hook_calls (train fmt hook self experience weights counter) of
        [] \<Rightarrow> self
      | (ex, w, c) # _ \<Rightarrow> snd (hook self ex w c))"
  by (auto simp: train_def agent_after_def hook_calls_def
      split: experience_obj.splits sum.splits option.splits prod.splits)

lemma train_preserves:
  assumes "\<And>s ex w c. f (snd (hook s ex w c)) = f s"
  shows "f (agent_after (train fmt hook self experience weights counter)) = f self"
  by (simp add: train_instance_after assms split: list.splits prod.splits)

lemma train_all_preserves:
  assumes "\<And>s ex w c. f (snd (hook s ex w c)) = f s"
  shows "f (train_all fmt hook self calls) = f self"
proof (induction calls arbitrary: self)
  case Nil
  show ?case by simp
next
  case (Cons call calls)
  obtain e w c where call: "call = (e, w, c)" by (cases call)
  let ?a = "agent_after (train fmt hook self e w c)"
  have "f (train_all fmt hook self (call # calls)) = f (train_all fmt hook ?a calls)"
    by (simp add: call)
  also have "\<dots> = f ?a" by (rule Cons.IH)
  also have "\<dots> = f self" using assms by (rule train_preserves)
  finally show ?case .
qed

lemma example_hook_keeps_base_attrs: "hook_keeps_base_attrs example_hook"
  by (simp add: hook_keeps_base_attrs_def example_hook_def base_attrs_def)

lemma example_hook_keeps_collect_policy: "hook_keeps_collect_policy example_hook"
  by (simp add: hook_keeps_collect_policy_def example_hook_def)

lemma example_init:
  "init example_subclass tss acs p cp tsl ds sg self =
     (Inr (), self\<lparr>attr_time_step_spec := Some tss, attr_action_spec := Some acs,
        attr_policy := Some p, attr_collect_policy := Some cp,
        attr_train_sequence_length := Some tsl, attr_debug_summaries := Some ds,
        attr_summarize_grads_and_vars := Some sg\<rparr>)"
  by (simp add: init_def assert_members_are_not_overridden_def overridden_members_def
      TFAgent_members_def example_subclass_def is_hook_name_def)

lemma example_collect_data_spec: "collect_data_spec (example_agent tsl) = Inr example_spec"
  by (simp add: example_agent_def example_init collect_data_spec_def collect_policy_def
      getattr_def example_collect_policy_def)

lemma example_train_sequence_length: "train_sequence_length (example_agent tsl) = Inr tsl"
  by (simp add: example_agent_def example_init train_sequence_length_def getattr_def)

lemma example_batched: "is_batched_nested_tensors (batch time) example_spec 2"
  by (simp add: batch_def example_spec_def is_batched_tensor_def)

lemma example_agent_init:
  "init example_subclass (Leaf (TensorSpec [8])) (Leaf (TensorSpec []))
       example_policy example_collect_policy tsl False False unassigned =
     (Inr (), example_agent tsl)"
  by (simp add: example_agent_def example_init)

lemma example_hook_calls:
  "hook_calls (train fmt hook (example_agent (Some 2)) (Trajectory (batch 2)) weights counter) =
     [(batch 2, weights, counter)]"
proof -
  have "first_raise (check_shape fmt (batch 2) 2) (flatten (batch 2)) = Inr ()"
    by (simp add: check_shape_def shape_dim_def batch_def)
  then show ?thesis
    by (simp add: train_def hook_calls_def example_collect_data_spec
        example_train_sequence_length example_batched split: prod.splits)
qed

lemma str_nat_digits:
  "str_nat 2 = ''2''" "str_nat 3 = ''3''" "str_nat 4 = ''4''" "str_nat 7 = ''7''" "str_nat 8 = ''8''"
  by (simp_all add: str_nat.simps digit_char_def)

lemma check_shape_ok_iff:
  "2 \<le> length (shape t) \<Longrightarrow> (check_shape fmt ex n t \<noteq> Inr ()) = (int (shape t ! 1) \<noteq> n)"
  by (simp add: check_shape_def shape_dim_def)

lemma check_shape_fails:
  "2 \<le> length (shape t) \<Longrightarrow> int (shape t ! 1) \<noteq> n \<Longrightarrow>
   check_shape fmt ex n t =
     Inl (ValueError (time_axis_message (shape t ! 1) n (fmt (map_structure shape ex))))"
  by (simp add: check_shape_def shape_dim_def)

lemma first_raise_never:
  "(\<And>x. x \<in> set xs \<Longrightarrow> f x \<noteq> Inl e) \<Longrightarrow> first_raise f xs \<noteq> Inl e"
  by (induction xs) (auto split: sum.splits)

text \<open>
  Without the structure check the visit would fault: on a tensor of rank below two
  \<open>check_shape\<close> raises \<open>IndexError\<close>, as it does on the second tensor of
  \<open>one_dim_batch\<close>.
\<close>

lemma check_shape_faults_below_rank_two:
  "length (shape t) < 2 \<Longrightarrow> check_shape fmt ex n t = Inl IndexError"
  by (simp add: check_shape_def shape_dim_def)

lemma first_raise_reaches_fault:
  "first_raise (check_shape fmt one_dim_batch 2) (flatten one_dim_batch) = Inl IndexError"
  by (simp add: one_dim_batch_def check_shape_def shape_dim_def)

lemma check_shape_no_index_error:
  "2 \<le> length (shape t) \<Longrightarrow> check_shape fmt ex n t \<noteq> Inl IndexError"
  by (simp add: check_shape_def shape_dim_def)

lemma init_success:
  assumes "init subclass_members tss acs p cp tsl ds sg self = (Inr (), a)"
  shows "a = self\<lparr>attr_time_step_spec := Some tss, attr_action_spec := Some acs,
        attr_policy := Some p, attr_collect_policy := Some cp,
        attr_train_sequence_length := Some tsl, attr_debug_summaries := Some ds,
        attr_summarize_grads_and_vars := Some sg\<rparr>"
  using assms by (auto simp: init_def split: sum.splits)

lemma sublist_join: "x \<in> set xs \<Longrightarrow> sublist x (join sep xs)"
proof (induction sep xs rule: join.induct)
  case (3 sep y z zs)
  show ?case
  proof (cases "x = y")
    case True
    then show ?thesis by simp
  next
    case False
    with 3 have "sublist x (join sep (z # zs))" by simp
    then have "sublist x ((y @ sep) @ join sep (z # zs))"
      unfolding sublist_append by blast
    then show ?thesis by simp
  qed
qed simp_all

lemma sublist_str_structure:
  "s \<in> set (flatten n) \<Longrightarrow> sublist (str_shape s) (str_structure n)"
proof (induction n)
  case (Leaf x)
  then show ?case by simp
next
  case (Node ns)
  then obtain sub where sub: "sub \<in> set ns" "s \<in> set (flatten sub)" by auto
  with Node.IH have "sublist (str_shape s) (str_structure sub)" by blast
  moreover from sub(1) have "sublist (str_structure sub) (join '', '' (map str_structure ns))"
    by (intro sublist_join) simp
  ultimately have "sublist (str_shape s) (join '', '' (map str_structure ns))"
    by (rule sublist_order.order_trans)
  then have "sublist (str_shape s) (''['' @ join '', '' (map str_structure ns) @ '']'')"
    unfolding sublist_append by blast
  then show ?case by simp
qed

lemma outer_dims_message_parts:
  "sublist x d1 \<or> sublist x d2 \<Longrightarrow> sublist x (outer_dims_message d1 d2)"
  unfolding outer_dims_message_def sublist_append by blast

subsection \<open>A valid batch reaches the hook\<close>

text \<open>
  Claim C1. The instance has its collect policy and its \<open>train_sequence_length\<close>
  assigned, the experience is a \<open>Trajectory\<close> that passes the structure check
  against \<open>collect_data_spec\<close> with two outer dimensions, and, when
  \<open>train_sequence_length\<close> is an integer, axis 1 of every tensor has that size. Then
  \<open>train\<close> calls the hook exactly once, with the experience, the weights and the
  counter it was given, and when the hook returns a \<open>LossInfo\<close>, \<open>train\<close>
  returns that same record.
\<close>

theorem train_valid_batch_calls_hook_once:
  assumes "collect_data_spec self = Inr spec"
    and "train_sequence_length self = Inr tsl"
    and "is_batched_nested_tensors ex spec 2"
    and "\<forall>n. tsl = Some n \<longrightarrow> (\<forall>t\<in>set (flatten ex). int (shape t ! 1) = n)"
  shows "hook_calls (train fmt hook self (Trajectory ex) weights counter) = [(ex, weights, counter)] \<and>
         (\<forall>li. fst (hook self ex weights counter) = ReturnsLossInfo li \<longrightarrow>
            train_result (train fmt hook self (Trajectory ex) weights counter) = Inr li)"
proof -
  have checks: "(case tsl of None \<Rightarrow> Inr () | Some required \<Rightarrow>
      first_raise (check_shape fmt ex required) (flatten ex)) = Inr ()"
  proof (cases tsl)
    case None
    then show ?thesis by simp
  next
    case (Some n)
    have "first_raise (check_shape fmt ex n) (flatten ex) = Inr ()"
    proof (rule first_raise_all_ok)
      fix t assume t: "t \<in> set (flatten ex)"
      with assms(3) have "2 \<le> length (shape t)" by (rule batched_rank)
      moreover from assms(4) Some t have "int (shape t ! 1) = n" by simp
      ultimately show "check_shape fmt ex n t = Inr ()"
        by (simp add: check_shape_def shape_dim_def)
    qed
    with Some show ?thesis by simp
  qed
  show ?thesis
    using assms(1-3) checks
    by (simp add: train_def hook_calls_def train_result_def split: prod.splits)
qed

theorem train_valid_batch_calls_hook_once_witness:
  "hook_calls (train str_structure example_hook (example_agent (Some 2)) (Trajectory (batch 2)) None None) =
     [(batch 2, None, None)] \<and>
   train_result (train str_structure example_hook (example_agent (Some 2)) (Trajectory (batch 2)) None None) =
     Inr \<lparr>loss = 125, extra = ()\<rparr>"
proof -
  have ax: "\<forall>n. Some (2::int) = Some n \<longrightarrow> (\<forall>t\<in>set (flatten (batch 2)). int (shape t ! 1) = n)"
    by (simp add: batch_def)
  show ?thesis
    using train_valid_batch_calls_hook_once [OF example_collect_data_spec
        example_train_sequence_length example_batched ax, of str_structure example_hook None None]
    by (simp add: example_hook_def)
qed

subsection \<open>An experience that is not a Trajectory\<close>

text \<open>
  Claim C2. For an \<open>experience\<close> that is not a \<open>Trajectory\<close>, \<open>train\<close>
  does not call the hook, leaves the instance as it is, and raises with a message that
  ends in the type it saw. What it raises is a \<open>ValueError\<close>: the claim, and the
  docstring of \<open>train\<close> under "Raises", say \<open>TypeError\<close>.
\<close>

theorem train_not_trajectory_raises_value_error:
  "train fmt hook self (NotTrajectory ty) weights counter =
     (Inl (ValueError (not_trajectory_message ty)), [], self)"
  by (simp add: train_def)

theorem train_not_trajectory_raises_value_error_witness:
  "train_result (train str_structure example_hook (example_agent (Some 2))
       (NotTrajectory ''<class 'tuple'>'') None None) =
     Inl (ValueError ''experience must be type Trajectory, saw type: <class 'tuple'>'') \<and>
   hook_calls (train str_structure example_hook (example_agent (Some 2))
       (NotTrajectory ''<class 'tuple'>'') None None) = []"
  using train_not_trajectory_raises_value_error [of str_structure example_hook
      "example_agent (Some 2)" "''<class 'tuple'>''" None None]
  by (simp add: train_result_def hook_calls_def not_trajectory_message_def)

subsection \<open>A time axis of the wrong length\<close>

text \<open>
  Claim C3, as amended. The instance has its collect policy assigned and
  \<open>train_sequence_length\<close> is the integer \<open>n\<close>; the experience is a
  \<open>Trajectory\<close> that passes the structure check, and axis 1 of some tensor differs
  from \<open>n\<close>. Then \<open>train\<close> raises a \<open>ValueError\<close>, without a call of the
  hook and with the instance as it was, and the message names the size of axis 1 of the
  first such tensor (in the order of \<open>flatten\<close>), the required \<open>n\<close>, and the
  printed structure of all shapes of the experience. With length 2 and tensors of shapes
  \<open>[4, 3, 8]\<close> and \<open>[4, 3]\<close> the message holds \<open>'3'\<close> and \<open>'2'\<close>.
\<close>

theorem train_time_axis_mismatch:
  assumes "collect_data_spec self = Inr spec"
    and "train_sequence_length self = Inr (Some n)"
    and "is_batched_nested_tensors ex spec 2"
    and "\<exists>t\<in>set (flatten ex). int (shape t ! 1) \<noteq> n"
  shows "\<exists>t. find (\<lambda>t. int (shape t ! 1) \<noteq> n) (flatten ex) = Some t \<and>
           train fmt hook self (Trajectory ex) weights counter =
             (Inl (ValueError
                (time_axis_message (shape t ! 1) n (fmt (map_structure shape ex)))), [], self)"
proof -
  from assms(4) obtain t where t: "find (\<lambda>t. int (shape t ! 1) \<noteq> n) (flatten ex) = Some t"
    by (cases "find (\<lambda>t. int (shape t ! 1) \<noteq> n) (flatten ex)") (auto simp: find_None_iff)
  then have tin: "t \<in> set (flatten ex)" and tbad: "int (shape t ! 1) \<noteq> n"
    by (auto simp: find_Some_iff)
  from assms(3) have rank: "\<And>u. u \<in> set (flatten ex) \<Longrightarrow> 2 \<le> length (shape u)"
    by (rule batched_rank)
  have "find (\<lambda>t. check_shape fmt ex n t \<noteq> Inr ()) (flatten ex) =
      find (\<lambda>t. int (shape t ! 1) \<noteq> n) (flatten ex)"
    by (rule find_cong) (simp_all add: check_shape_ok_iff rank)
  with t have "first_raise (check_shape fmt ex n) (flatten ex) = check_shape fmt ex n t"
    by (simp add: first_raise_find)
  also have "\<dots> = Inl (ValueError (time_axis_message (shape t ! 1) n (fmt (map_structure shape ex))))"
    using rank [OF tin] tbad by (rule check_shape_fails)
  finally have "train fmt hook self (Trajectory ex) weights counter =
      (Inl (ValueError (time_axis_message (shape t ! 1) n (fmt (map_structure shape ex)))), [], self)"
    using assms(1-3) by (simp add: train_def)
  with t show ?thesis by blast
qed

theorem train_time_axis_mismatch_witness:
  "train str_structure example_hook (example_agent (Some 2)) (Trajectory (batch 3)) None None =
     (Inl (ValueError
        (''One of the tensors in `experience` has a time axis dim value '' @ apostrophe @ ''3'' @
         apostrophe @ '', but we require dim value '' @ apostrophe @ ''2'' @ apostrophe @
         ''.  Full shape structure of experience:\<newline>[(4, 3, 8), (4, 3)]'')),
      [], example_agent (Some 2))"
proof -
  have bad: "\<exists>t\<in>set (flatten (batch 3)). int (shape t ! 1) \<noteq> 2"
    by (simp add: batch_def)
  have f: "find (\<lambda>t. int (shape t ! 1) \<noteq> 2) (flatten (batch 3)) = Some (Tensor [4, 3, 8])"
    by (simp add: batch_def)
  have s3: "str_nat 3 = ''3''" and s2: "str_int 2 = ''2''"
    and s4: "str_nat 4 = ''4''" and s8: "str_nat 8 = ''8''"
    by (simp_all add: str_nat.simps str_int_def digit_char_def)
  have p: "str_structure (map_structure shape (batch 3)) = ''[(4, 3, 8), (4, 3)]''"
    by (simp add: batch_def str_shape_def s3 s4 s8)
  from train_time_axis_mismatch [OF example_collect_data_spec example_train_sequence_length
      example_batched bad, where fmt = str_structure and hook = example_hook
      and weights = None and counter = None]
  obtain t where t: "find (\<lambda>t. int (shape t ! 1) \<noteq> 2) (flatten (batch 3)) = Some t"
    and r: "train str_structure example_hook (example_agent (Some 2)) (Trajectory (batch 3)) None None =
      (Inl (ValueError (time_axis_message (shape t ! 1) 2
         (str_structure (map_structure shape (batch 3))))), [], example_agent (Some 2))"
    by blast
  from t f have "t = Tensor [4, 3, 8]" by simp
  with r show ?thesis
    by (simp add: time_axis_message_def s3 s2 p)
qed

text \<open>
  Claim C3 as it is written asks nothing of the structure of the batch, and the
  structure check comes first. The agent \<open>unbatched_agent\<close> requires length 2; its
  specs have the shapes \<open>[4, 3, 5, 8]\<close> and \<open>[4, 3, 5]\<close> and so have the
  tensors, which therefore carry no outer dimension. Axis 1 of each tensor is 3, not 2,
  and \<open>train\<close> raises the \<open>ValueError\<close> of the structure check: that message is
  not the message of the length check for any found value, and it does not hold the
  character \<open>2\<close>, so it does not name the required length.
\<close>

theorem time_axis_claim_counterexample:
  "train_sequence_length unbatched_agent = Inr (Some 2) \<and>
   collect_data_spec unbatched_agent = Inr unbatched_spec \<and>
   map shape (flatten unbatched_tensors) = [[4, 3, 5, 8], [4, 3, 5]] \<and>
   map spec_shape (flatten unbatched_spec) = [[4, 3, 5, 8], [4, 3, 5]] \<and>
   (\<exists>t\<in>set (flatten unbatched_tensors). int (shape t ! 1) \<noteq> 2) \<and>
   train str_structure example_hook unbatched_agent (Trajectory unbatched_tensors) None None =
     (Inl (ValueError (outer_dims_message ''[(4, 3, 5, 8), (4, 3, 5)]''
        ''[(4, 3, 5, 8), (4, 3, 5)]'')), [], unbatched_agent) \<and>
   (\<forall>found debug_str.
      outer_dims_message ''[(4, 3, 5, 8), (4, 3, 5)]'' ''[(4, 3, 5, 8), (4, 3, 5)]'' \<noteq>
        time_axis_message found 2 debug_str) \<and>
   CHR ''2'' \<notin> set (outer_dims_message ''[(4, 3, 5, 8), (4, 3, 5)]''
      ''[(4, 3, 5, 8), (4, 3, 5)]'')"
proof -
  have s3: "str_nat 3 = ''3''" and s4: "str_nat 4 = ''4''" and s5: "str_nat 5 = ''5''"
    and s8: "str_nat 8 = ''8''"
    by (simp_all add: str_nat.simps digit_char_def)
  have tsl: "train_sequence_length unbatched_agent = Inr (Some 2)"
    by (simp add: unbatched_agent_def example_init train_sequence_length_def getattr_def)
  have cds: "collect_data_spec unbatched_agent = Inr unbatched_spec"
    by (simp add: unbatched_agent_def example_init collect_data_spec_def collect_policy_def
        getattr_def unbatched_policy_def)
  have nb: "\<not> is_batched_nested_tensors unbatched_tensors unbatched_spec 2"
    by (simp add: unbatched_tensors_def unbatched_spec_def is_batched_tensor_def)
  have p1: "str_structure (map_structure shape unbatched_tensors) = ''[(4, 3, 5, 8), (4, 3, 5)]''"
    by (simp add: unbatched_tensors_def str_shape_def s3 s4 s5 s8)
  have p2: "str_structure (map_structure spec_shape unbatched_spec) = ''[(4, 3, 5, 8), (4, 3, 5)]''"
    by (simp add: unbatched_spec_def str_shape_def s3 s4 s5 s8)
  have r: "train str_structure example_hook unbatched_agent (Trajectory unbatched_tensors) None None =
     (Inl (ValueError (outer_dims_message ''[(4, 3, 5, 8), (4, 3, 5)]''
        ''[(4, 3, 5, 8), (4, 3, 5)]'')), [], unbatched_agent)"
    by (simp add: train_def cds nb p1 p2)
  have d: "outer_dims_message ''[(4, 3, 5, 8), (4, 3, 5)]'' ''[(4, 3, 5, 8), (4, 3, 5)]'' \<noteq>
      time_axis_message found 2 debug_str" for found debug_str
    by (simp add: outer_dims_message_def time_axis_message_def)
  have c: "CHR ''2'' \<notin> set (outer_dims_message ''[(4, 3, 5, 8), (4, 3, 5)]''
      ''[(4, 3, 5, 8), (4, 3, 5)]'')"
    by (simp add: outer_dims_message_def)
  have e1: "map shape (flatten unbatched_tensors) = [[4, 3, 5, 8], [4, 3, 5]]"
    by (simp add: unbatched_tensors_def)
  have e2: "map spec_shape (flatten unbatched_spec) = [[4, 3, 5, 8], [4, 3, 5]]"
    by (simp add: unbatched_spec_def)
  have e3: "\<exists>t\<in>set (flatten unbatched_tensors). int (shape t ! 1) \<noteq> 2"
    by (simp add: unbatched_tensors_def)
  from tsl cds e1 e2 e3 r d c show ?thesis by blast
qed

subsection \<open>A batch that fails the structure check\<close>

text \<open>
  Claim C4. The instance has its collect policy assigned and the experience is a
  \<open>Trajectory\<close> that fails the structure check against \<open>collect_data_spec\<close>
  with two outer dimensions (a tensor without exactly two outer dimensions before the
  shape of its spec, or a nesting that differs). Then \<open>train\<close> raises a
  \<open>ValueError\<close>, without a call of the hook and with the instance as it was. The
  message holds the printed structure of the shapes of the experience and the printed
  structure of the shapes of the spec; the first has the shape of every tensor as a leaf,
  the second the shape of every spec. With the printer \<open>str_structure\<close> the
  printed shape of every tensor and of every spec is a part of the message.
\<close>

theorem train_structure_mismatch:
  assumes "collect_data_spec self = Inr spec"
    and "\<not> is_batched_nested_tensors ex spec 2"
  shows "train fmt hook self (Trajectory ex) weights counter =
           (Inl (ValueError (outer_dims_message (fmt (map_structure shape ex))
              (fmt (map_structure spec_shape spec)))), [], self) \<and>
         flatten (map_structure shape ex) = map shape (flatten ex) \<and>
         flatten (map_structure spec_shape spec) = map spec_shape (flatten spec) \<and>
         (\<forall>t\<in>set (flatten ex). sublist (str_shape (shape t))
            (outer_dims_message (str_structure (map_structure shape ex))
               (str_structure (map_structure spec_shape spec)))) \<and>
         (\<forall>s\<in>set (flatten spec). sublist (str_shape (spec_shape s))
            (outer_dims_message (str_structure (map_structure shape ex))
               (str_structure (map_structure spec_shape spec))))"
proof -
  have a: "train fmt hook self (Trajectory ex) weights counter =
           (Inl (ValueError (outer_dims_message (fmt (map_structure shape ex))
              (fmt (map_structure spec_shape spec)))), [], self)"
    using assms by (simp add: train_def)
  have b: "sublist (str_shape (shape t))
            (outer_dims_message (str_structure (map_structure shape ex))
               (str_structure (map_structure spec_shape spec)))"
    if "t \<in> set (flatten ex)" for t
  proof -
    from that have "shape t \<in> set (flatten (map_structure shape ex))"
      by (simp add: flatten_map_structure)
    then show ?thesis
      by (intro outer_dims_message_parts disjI1 sublist_str_structure)
  qed
  have c: "sublist (str_shape (spec_shape s))
            (outer_dims_message (str_structure (map_structure shape ex))
               (str_structure (map_structure spec_shape spec)))"
    if "s \<in> set (flatten spec)" for s
  proof -
    from that have "spec_shape s \<in> set (flatten (map_structure spec_shape spec))"
      by (simp add: flatten_map_structure)
    then show ?thesis
      by (intro outer_dims_message_parts disjI2 sublist_str_structure)
  qed
  from a b c show ?thesis by (simp add: flatten_map_structure)
qed

theorem train_structure_mismatch_witness:
  "train str_structure example_hook (example_agent (Some 2)) (Trajectory one_dim_batch) None None =
     (Inl (ValueError (outer_dims_message ''[(4, 2, 8), (4)]'' ''[(8), ()]'')), [],
      example_agent (Some 2)) \<and>
   sublist ''(4, 2, 8)'' (outer_dims_message ''[(4, 2, 8), (4)]'' ''[(8), ()]'') \<and>
   sublist ''(4)'' (outer_dims_message ''[(4, 2, 8), (4)]'' ''[(8), ()]'') \<and>
   sublist ''(8)'' (outer_dims_message ''[(4, 2, 8), (4)]'' ''[(8), ()]'') \<and>
   sublist ''()'' (outer_dims_message ''[(4, 2, 8), (4)]'' ''[(8), ()]'')"
proof -
  have nb: "\<not> is_batched_nested_tensors one_dim_batch example_spec 2"
    by (simp add: one_dim_batch_def example_spec_def is_batched_tensor_def)
  have p1: "str_structure (map_structure shape one_dim_batch) = ''[(4, 2, 8), (4)]''"
    by (simp add: one_dim_batch_def str_shape_def str_nat_digits)
  have p2: "str_structure (map_structure spec_shape example_spec) = ''[(8), ()]''"
    by (simp add: example_spec_def str_shape_def str_nat_digits)
  have f1: "flatten one_dim_batch = [Tensor [4, 2, 8], Tensor [4]]"
    by (simp add: one_dim_batch_def)
  have f2: "flatten example_spec = [TensorSpec [8], TensorSpec []]"
    by (simp add: example_spec_def)
  show ?thesis
    using train_structure_mismatch [OF example_collect_data_spec nb,
        where fmt = str_structure and hook = example_hook and weights = None and counter = None]
    unfolding p1 p2 f1 f2
    by (simp add: str_shape_def str_nat_digits)
qed

subsection \<open>The result of the hook\<close>

text \<open>
  Claim C5. In a call of \<open>train\<close> that called the hook: when the hook returned an
  object that is not a \<open>LossInfo\<close>, \<open>train\<close> raises a \<open>TypeError\<close>; when
  the hook returned a \<open>LossInfo\<close>, \<open>train\<close> returns that same record.
\<close>

theorem train_checks_hook_result:
  assumes "hook_calls (train fmt hook self experience weights counter) = [(ex, w, c)]"
  shows "(\<forall>v. fst (hook self ex w c) = ReturnsOther v \<longrightarrow>
            train_result (train fmt hook self experience weights counter) =
              Inl (TypeError (not_loss_info_message v))) \<and>
         (\<forall>li. fst (hook self ex w c) = ReturnsLossInfo li \<longrightarrow>
            train_result (train fmt hook self experience weights counter) = Inr li)"
  using assms
  by (auto simp: train_def hook_calls_def train_result_def
      split: experience_obj.splits sum.splits if_splits prod.splits)

theorem train_checks_hook_result_witness:
  "hook_calls (train str_structure raw_loss_hook (example_agent (Some 2)) (Trajectory (batch 2)) None None) =
     [(batch 2, None, None)] \<and>
   train_result (train str_structure raw_loss_hook (example_agent (Some 2)) (Trajectory (batch 2)) None None) =
     Inl (TypeError ''loss_info is not a subclass of LossInfo: 1.25'')"
proof -
  note calls = example_hook_calls [where fmt = str_structure and hook = raw_loss_hook
      and weights = None and counter = None]
  show ?thesis
    using calls train_checks_hook_result [OF calls]
    by (simp add: raw_loss_hook_def not_loss_info_message_def)
qed

subsection \<open>No required length\<close>

text \<open>
  Claim C6. When \<open>train_sequence_length\<close> is \<open>None\<close>, a \<open>Trajectory\<close>
  that passes the structure check reaches the hook, whatever the size of its time axis:
  \<open>train\<close> calls the hook once and what it returns or raises is decided by the
  result of the hook alone.
\<close>

theorem train_unconstrained_length:
  assumes "collect_data_spec self = Inr spec"
    and "train_sequence_length self = Inr None"
    and "is_batched_nested_tensors ex spec 2"
  shows "hook_calls (train fmt hook self (Trajectory ex) weights counter) = [(ex, weights, counter)] \<and>
         train_result (train fmt hook self (Trajectory ex) weights counter) =
           (case fst (hook self ex weights counter) of
              Raises x \<Rightarrow> Inl (HookRaised x)
            | ReturnsOther v \<Rightarrow> Inl (TypeError (not_loss_info_message v))
            | ReturnsLossInfo loss_info \<Rightarrow> Inr loss_info)"
  using assms
  by (simp add: train_def hook_calls_def train_result_def split: prod.splits)

theorem train_unconstrained_length_witness:
  "hook_calls (train str_structure example_hook (example_agent None) (Trajectory (batch 7)) None None) =
     [(batch 7, None, None)] \<and>
   train_result (train str_structure example_hook (example_agent None) (Trajectory (batch 7)) None None) =
     Inr \<lparr>loss = 125, extra = ()\<rparr>"
  using train_unconstrained_length [OF example_collect_data_spec
      example_train_sequence_length example_batched, of str_structure example_hook 7 None None]
  by (simp add: example_hook_def)

subsection \<open>A subclass that overrides a member\<close>

text \<open>
  Claim C7. When the concrete subclass defines a name that the body of \<open>TFAgent\<close>
  defines and that is not a hook name, \<open>__init__\<close> raises a
  \<open>ConfigurationError\<close> and the instance is as it was before the call: no
  attribute was assigned.
\<close>

theorem init_rejects_overridden_member:
  assumes "m \<in> set subclass_members"
    and "m \<in> set TFAgent_members"
    and "\<not> is_hook_name m"
  shows "\<exists>msg. init subclass_members tss acs p cp tsl ds sg self =
           (Inl (ConfigurationError msg), self)"
proof -
  from assms have "m \<in> set (overridden_members TFAgent_members subclass_members)"
    by (simp add: overridden_members_def)
  then obtain x xs where "overridden_members TFAgent_members subclass_members = x # xs"
    by (cases "overridden_members TFAgent_members subclass_members") auto
  then show ?thesis
    by (simp add: init_def assert_members_are_not_overridden_def)
qed

theorem init_rejects_overridden_member_witness:
  "\<exists>msg. init overriding_subclass (Leaf (TensorSpec [8])) (Leaf (TensorSpec []))
       example_policy example_collect_policy (Some 2) False False unassigned =
     (Inl (ConfigurationError msg), unassigned)"
proof -
  have a: "''train'' \<in> set overriding_subclass" by (simp add: overriding_subclass_def)
  have b: "''train'' \<in> set TFAgent_members" by (simp add: TFAgent_members_def)
  have c: "\<not> is_hook_name ''train''" by (simp add: is_hook_name_def)
  show ?thesis by (rule init_rejects_overridden_member [OF a b c])
qed

subsection \<open>The collect data spec\<close>

text \<open>
  Claim C8, as amended. \<open>collect_data_spec\<close> is read from the collect policy at
  every access and is not stored: after a construction with the collect policy
  \<open>cp\<close> it is the \<open>trajectory_spec\<close> of \<open>cp\<close>; it still is after any
  calls of \<open>train\<close>, those that return and those that raise, when the hook does
  not assign the collect policy; and it follows the attribute: were another policy
  assigned to it, \<open>collect_data_spec\<close> would be the \<open>trajectory_spec\<close> of that
  one.
\<close>

theorem collect_data_spec_is_derived:
  assumes "init subclass_members tss acs p cp tsl ds sg self0 = (Inr (), a)"
  shows "collect_data_spec a = Inr (trajectory_spec cp) \<and>
         (hook_keeps_collect_policy hook \<longrightarrow>
            collect_data_spec (train_all fmt hook a calls) = Inr (trajectory_spec cp)) \<and>
         collect_data_spec (a\<lparr>attr_collect_policy := Some q\<rparr>) = Inr (trajectory_spec q)"
proof -
  note a = init_success [OF assms]
  have "attr_collect_policy (train_all fmt hook a calls) = attr_collect_policy a"
    if keeps: "hook_keeps_collect_policy hook"
  proof (rule train_all_preserves)
    fix s ex w c
    from keeps show "attr_collect_policy (snd (hook s ex w c)) = attr_collect_policy s"
      by (simp add: hook_keeps_collect_policy_def)
  qed
  then show ?thesis
    by (simp add: a collect_data_spec_def collect_policy_def getattr_def)
qed

theorem collect_data_spec_is_derived_witness:
  "collect_data_spec (example_agent (Some 2)) = Inr example_spec \<and>
   collect_data_spec (train_all str_structure example_hook (example_agent (Some 2)) example_calls) =
     Inr example_spec \<and>
   collect_data_spec ((example_agent (Some 2))\<lparr>attr_collect_policy := Some other_policy\<rparr>) =
     Inr (Leaf (TensorSpec [3]))"
  using collect_data_spec_is_derived [OF example_agent_init, where fmt = str_structure
      and hook = example_hook and calls = example_calls and q = other_policy]
    example_hook_keeps_collect_policy
  by (simp add: example_collect_policy_def other_policy_def)

text \<open>
  Claim C8 as it is written speaks of every point of the agent's lifetime, and the hook
  is handed the instance. The agent is constructed with a collect policy whose
  \<open>trajectory_spec\<close> is \<open>example_spec\<close>; one call of \<open>train\<close> with a hook
  that assigns another collect policy, and \<open>collect_data_spec\<close> is the spec of that
  other policy.
\<close>

theorem collect_data_spec_claim_counterexample:
  "init example_subclass (Leaf (TensorSpec [8])) (Leaf (TensorSpec []))
       example_policy example_collect_policy (Some 2) False False unassigned =
     (Inr (), example_agent (Some 2)) \<and>
   collect_data_spec (example_agent (Some 2)) = Inr (trajectory_spec example_collect_policy) \<and>
   hook_calls (train str_structure policy_assigning_hook (example_agent (Some 2))
      (Trajectory (batch 2)) None None) = [(batch 2, None, None)] \<and>
   collect_data_spec (agent_after (train str_structure policy_assigning_hook
      (example_agent (Some 2)) (Trajectory (batch 2)) None None)) =
     Inr (Leaf (TensorSpec [3])) \<and>
   trajectory_spec example_collect_policy \<noteq> Leaf (TensorSpec [3])"
proof -
  have after: "agent_after (train str_structure policy_assigning_hook (example_agent (Some 2))
      (Trajectory (batch 2)) None None) =
      (example_agent (Some 2))\<lparr>attr_collect_policy := Some other_policy\<rparr>"
    by (simp add: train_instance_after example_hook_calls policy_assigning_hook_def)
  have "collect_data_spec ((example_agent (Some 2))\<lparr>attr_collect_policy := Some other_policy\<rparr>) =
      Inr (Leaf (TensorSpec [3]))"
    by (simp add: collect_data_spec_def collect_policy_def getattr_def other_policy_def)
  with after have x: "collect_data_spec (agent_after (train str_structure policy_assigning_hook
      (example_agent (Some 2)) (Trajectory (batch 2)) None None)) = Inr (Leaf (TensorSpec [3]))"
    by simp
  have c0: "collect_data_spec (example_agent (Some 2)) =
      Inr (trajectory_spec example_collect_policy)"
    by (simp add: example_collect_data_spec example_collect_policy_def)
  have ne: "trajectory_spec example_collect_policy \<noteq> Leaf (TensorSpec [3])"
    by (simp add: example_collect_policy_def example_spec_def)
  note calls = example_hook_calls [where fmt = str_structure and hook = policy_assigning_hook
      and weights = None and counter = None]
  from example_agent_init [of "Some 2"] c0 calls x ne show ?thesis by blast
qed

subsection \<open>The attributes are assigned once\<close>

text \<open>
  Claim C9, as amended. The code of \<open>TFAgent\<close> assigns the seven attributes in
  \<open>__init__\<close> and nowhere else: after a call of \<open>train\<close>, with any hook, the
  instance is the instance before the call when the hook was not called, and the
  instance as the hook left it otherwise. So after a construction that succeeded and
  after any calls of \<open>train\<close>, those that return and those that raise, with a hook
  that assigns none of the seven attributes, each of the seven properties returns the
  argument that the constructor was given. The properties are functions of the instance
  that return a value and no instance: they assign nothing.
\<close>

theorem agent_attributes_are_write_once:
  assumes "init subclass_members tss acs p cp tsl ds sg self0 = (Inr (), a)"
    and "hook_keeps_base_attrs hook"
  shows "time_step_spec (train_all fmt hook a calls) = Inr tss \<and>
         action_spec (train_all fmt hook a calls) = Inr acs \<and>
         policy (train_all fmt hook a calls) = Inr p \<and>
         collect_policy (train_all fmt hook a calls) = Inr cp \<and>
         train_sequence_length (train_all fmt hook a calls) = Inr tsl \<and>
         debug_summaries (train_all fmt hook a calls) = Inr ds \<and>
         summarize_grads_and_vars (train_all fmt hook a calls) = Inr sg \<and>
         base_attrs (train_all fmt hook a calls) = base_attrs a \<and>
         agent_after (train fmt' any_hook self experience weights counter) =
           (case hook_calls (train fmt' any_hook self experience weights counter) of
              [] \<Rightarrow> self
            | (ex, w, c) # _ \<Rightarrow> snd (any_hook self ex w c))"
proof -
  note a = init_success [OF assms(1)]
  define b where "b = train_all fmt hook a calls"
  have "base_attrs b = base_attrs a"
    unfolding b_def
  proof (rule train_all_preserves)
    fix s ex w c
    from assms(2) show "base_attrs (snd (hook s ex w c)) = base_attrs s"
      by (simp add: hook_keeps_base_attrs_def)
  qed
  then have b: "attr_time_step_spec b = Some tss" "attr_action_spec b = Some acs"
    "attr_policy b = Some p" "attr_collect_policy b = Some cp"
    "attr_train_sequence_length b = Some tsl" "attr_debug_summaries b = Some ds"
    "attr_summarize_grads_and_vars b = Some sg" "base_attrs b = base_attrs a"
    by (simp_all add: base_attrs_def a)
  have "time_step_spec b = Inr tss" "action_spec b = Inr acs" "policy b = Inr p"
    "collect_policy b = Inr cp" "train_sequence_length b = Inr tsl"
    "debug_summaries b = Inr ds" "summarize_grads_and_vars b = Inr sg"
    by (simp_all add: b time_step_spec_def action_spec_def policy_def collect_policy_def
        train_sequence_length_def debug_summaries_def summarize_grads_and_vars_def getattr_def)
  with b(8) train_instance_after [of fmt' any_hook self experience weights counter]
  show ?thesis unfolding b_def by blast
qed

theorem agent_attributes_are_write_once_witness:
  "time_step_spec (train_all str_structure example_hook (example_agent (Some 2)) example_calls) =
     Inr (Leaf (TensorSpec [8])) \<and>
   action_spec (train_all str_structure example_hook (example_agent (Some 2)) example_calls) =
     Inr (Leaf (TensorSpec [])) \<and>
   policy (train_all str_structure example_hook (example_agent (Some 2)) example_calls) =
     Inr example_policy \<and>
   collect_policy (train_all str_structure example_hook (example_agent (Some 2)) example_calls) =
     Inr example_collect_policy \<and>
   train_sequence_length (train_all str_structure example_hook (example_agent (Some 2)) example_calls) =
     Inr (Some 2) \<and>
   debug_summaries (train_all str_structure example_hook (example_agent (Some 2)) example_calls) =
     Inr False \<and>
   summarize_grads_and_vars (train_all str_structure example_hook (example_agent (Some 2)) example_calls) =
     Inr False"
proof -
  note w = agent_attributes_are_write_once [OF example_agent_init [of "Some 2"]
      example_hook_keeps_base_attrs, where fmt = str_structure and calls = example_calls
      and fmt' = str_structure and any_hook = example_hook and self = unassigned
      and experience = "Trajectory (batch 2)" and weights = None and counter = None]
  then show ?thesis by blast
qed

text \<open>
  Claim C9 as it is written holds of every hook, and the hook is handed the instance.
  The agent is constructed with \<open>train_sequence_length = 2\<close>; one call of
  \<open>train\<close> with a hook that assigns \<open>None\<close> to that attribute, and the property
  returns \<open>None\<close>.
\<close>

theorem write_once_claim_counterexample:
  "init example_subclass (Leaf (TensorSpec [8])) (Leaf (TensorSpec []))
       example_policy example_collect_policy (Some 2) False False unassigned =
     (Inr (), example_agent (Some 2)) \<and>
   train_sequence_length (example_agent (Some 2)) = Inr (Some 2) \<and>
   hook_calls (train str_structure length_assigning_hook (example_agent (Some 2))
      (Trajectory (batch 2)) None None) = [(batch 2, None, None)] \<and>
   train_result (train str_structure length_assigning_hook (example_agent (Some 2))
      (Trajectory (batch 2)) None None) = Inr \<lparr>loss = 125, extra = ()\<rparr> \<and>
   train_sequence_length (agent_after (train str_structure length_assigning_hook
      (example_agent (Some 2)) (Trajectory (batch 2)) None None)) = Inr None"
proof -
  note calls = example_hook_calls [where fmt = str_structure and hook = length_assigning_hook
      and weights = None and counter = None]
  have after: "agent_after (train str_structure length_assigning_hook (example_agent (Some 2))
      (Trajectory (batch 2)) None None) =
      (example_agent (Some 2))\<lparr>attr_train_sequence_length := Some None\<rparr>"
    by (simp add: train_instance_after calls length_assigning_hook_def)
  have res: "train_result (train str_structure length_assigning_hook (example_agent (Some 2))
      (Trajectory (batch 2)) None None) = Inr \<lparr>loss = 125, extra = ()\<rparr>"
  proof -
    have "first_raise (check_shape str_structure (batch 2) 2) (flatten (batch 2)) = Inr ()"
      by (simp add: check_shape_def shape_dim_def batch_def)
    then show ?thesis
      by (simp add: train_def train_result_def example_collect_data_spec
          example_train_sequence_length example_batched length_assigning_hook_def)
  qed
  have x: "train_sequence_length (agent_after (train str_structure length_assigning_hook
      (example_agent (Some 2)) (Trajectory (batch 2)) None None)) = Inr None"
    by (simp add: after train_sequence_length_def getattr_def)
  from example_agent_init [of "Some 2"] example_train_sequence_length [of "Some 2"] calls res x
  show ?thesis by blast
qed

subsection \<open>Indexing the time axis\<close>

text \<open>
  Claim C10. \<open>train\<close> never raises the \<open>IndexError\<close> of \<open>t.shape[1]\<close>:
  \<open>check_shape\<close> runs only after the structure check passed, and every tensor of
  an experience that passes it with two outer dimensions has an axis 1.
\<close>

theorem time_axis_index_in_range:
  "train_result (train fmt hook self experience weights counter) \<noteq> Inl IndexError \<and>
   (is_batched_nested_tensors ex spec 2 \<longrightarrow>
      (\<forall>t\<in>set (flatten ex). shape_dim (shape t) 1 = Inr (shape t ! 1)))"
proof
  show "train_result (train fmt hook self experience weights counter) \<noteq> Inl IndexError"
  proof (cases experience)
    case (NotTrajectory ty)
    then show ?thesis by (simp add: train_def train_result_def)
  next
    case (Trajectory e)
    have cds: "collect_data_spec self \<noteq> Inl IndexError"
      by (simp add: collect_data_spec_def collect_policy_def getattr_def
          split: option.splits)
    have tsl: "train_sequence_length self \<noteq> Inl IndexError"
      by (simp add: train_sequence_length_def getattr_def split: option.splits)
    have checked: "first_raise (check_shape fmt e n) (flatten e) \<noteq> Inl IndexError"
      if "is_batched_nested_tensors e sp 2" for sp n
      by (rule first_raise_never, rule check_shape_no_index_error, rule batched_rank [OF that])
    show ?thesis
      using checked cds tsl
      by (auto simp: Trajectory train_def train_result_def
          split: sum.splits option.splits prod.splits hook_result.splits if_splits)
  qed
next
  show "is_batched_nested_tensors ex spec 2 \<longrightarrow>
      (\<forall>t\<in>set (flatten ex). shape_dim (shape t) 1 = Inr (shape t ! 1))"
    by (auto simp: shape_dim_def dest: batched_rank)
qed

theorem time_axis_index_in_range_witness:
  "train_result (train str_structure example_hook (example_agent (Some 2))
      (Trajectory (batch 3)) None None) \<noteq> Inl IndexError \<and>
   shape_dim (shape (Tensor [4, 3, 8])) 1 = Inr 3 \<and>
   shape_dim (shape (Tensor [4, 3])) 1 = Inr 3"
  using time_axis_index_in_range [where fmt = str_structure and hook = example_hook
      and self = "example_agent (Some 2)" and experience = "Trajectory (batch 3)"
      and weights = None and counter = None and ex = "batch 3" and spec = example_spec]
    example_batched [of 3]
  by (simp add: batch_def)

end
